theory Spec2Isabelle
  imports Main "HOL-Library.Word"
begin

section \<open>Data model of \<open>globalStateManager.ts\<close>\<close>

text \<open>
  The manager keeps one blob in the editor's key-value store: an object that maps a server
  name to its \<open>ServerPersist\<close>. Every static method reads the blob, possibly awaits calls
  of the REST client \<open>BaseAPI\<close>, mutates the blob and writes it back.

  The types \<open>Identity\<close>, \<open>ResponseSchema\<close>, \<open>BaseAPI\<close>, \<open>SocketIOAPI\<close>, \<open>FileType\<close>,
  \<open>FolderEntity\<close> and \<open>MemberEntity\<close> are imported by the source from other modules. The
  manager never looks inside an identity or an entity, so they are opaque here; of a
  response it reads exactly the fields of the record \<open>ResponseSchema\<close> below.

  Record fields carry a prefix (\<open>p_\<close>, \<open>l_\<close>, \<open>s_\<close>, \<open>r_\<close>) because the source reuses
  the names \<open>name\<close>, \<open>userId\<close>, \<open>identity\<close> and \<open>projects\<close> in several interfaces.
\<close>

text \<open>Modelled from the spec: \<open>Identity\<close> is declared in \<open>../api/base\<close>; the spec calls it
  an opaque authentication handle (cookie jar / token bundle).\<close>
datatype Identity = Identity string

typedecl MemberEntity
typedecl Entity
typedecl CompileResult
typedecl SyncCodeResult
typedecl SyncPdfResult
typedecl number

type_synonym FileType = string
type_synonym Uint8Array = "8 word list"

datatype AccessLevel = owner | collaborator | readOnly

record ProjectPersist =
  p_id :: string
  p_userId :: string
  p_name :: string
  p_lastUpdated :: "string option"
  p_lastUpdatedBy :: "MemberEntity option"
  p_source :: "AccessLevel option"
  p_accessLevel :: AccessLevel
  p_archived :: "bool option"
  p_trashed :: "bool option"

text \<open>The \<open>login\<close> member of \<open>ServerPersist\<close>. The source declares \<open>username: string\<close>
  but stores \<open>auth.email\<close> there, which is \<open>undefined\<close> when the caller passed cookies
  only; hence the option.\<close>
record Login =
  l_userId :: string
  l_username :: "string option"
  l_identity :: Identity
  l_projects :: "ProjectPersist list option"

record ServerPersist =
  s_name :: string
  s_url :: string
  s_login :: "Login option"

text \<open>The own properties of the blob: what \<open>update\<close> serialises and \<open>get\<close> gives back.
  What \<open>persists[name]\<close> evaluates to is \<open>persistsAt\<close> below, which also finds the
  properties the blob inherits.\<close>
type_synonym ServerPersistMap = "string \<rightharpoonup> ServerPersist"

subsection \<open>The remote client\<close>

text \<open>One constructor per \<open>BaseAPI\<close> method that the manager calls, with the arguments it
  passes. \<open>passportLogin\<close> receives \<open>auth.email\<close> and \<open>auth.password\<close>, either of which
  may be missing from the \<open>auth\<close> dictionary.\<close>
datatype call =
    CookiesLogin string
  | PassportLogin "string option" "string option"
  | Logout Identity
  | GetProjectsJson Identity
  | UserProjectsJson Identity
  | GetFile Identity string string
  | UploadFile Identity string string string Uint8Array
  | AddFolder Identity string string string
  | DeleteEntity Identity string FileType string
  | RenameEntity Identity string string string string
  | MoveEntity Identity string string string string
  | DeleteAuxFiles Identity string
  | Compile Identity string
  | ProxySyncCode Identity string string number number
  | ProxySyncPdf Identity string number number number

record ResponseSchema =
  r_type :: string
  r_message :: "string option"
  r_identity :: "Identity option"
  r_projects :: "ProjectPersist list option"
  r_content :: "Uint8Array option"
  r_entity :: "Entity option"
  r_compile :: "CompileResult option"
  r_syncCode :: "SyncCodeResult option"
  r_syncPdf :: "SyncPdfResult option"

text \<open>The client is a parameter of every method. Its answer may depend on everything the
  manager has asked so far: it is a function of the calls already made and the call at
  hand.\<close>
type_synonym BaseAPI = "call list \<Rightarrow> call \<Rightarrow> ResponseSchema"

subsection \<open>The world a method runs in\<close>

datatype error = TypeError | Rejected

text \<open>
  \<^item> \<open>globalState\<close>: the key-value store \<open>context.globalState\<close>;
  \<^item> \<open>updates\<close>: every \<open>globalState.update\<close> issued, oldest first;
  \<^item> \<open>calls\<close>: every method of the remote client invoked, oldest first;
  \<^item> \<open>errorMessages\<close>: every string handed to \<open>vscode.window.showErrorMessage\<close>;
  \<^item> \<open>objectLogin\<close>: the own \<open>login\<close> property of an inherited object, by the name the
    object is inherited under. The built-in objects have none until a method assigns one;
    they live in the process, not in the store.
\<close>
record world =
  globalState :: "string \<rightharpoonup> ServerPersistMap"
  updates :: "(string \<times> ServerPersistMap) list"
  calls :: "call list"
  errorMessages :: "string list"
  objectLogin :: "string \<rightharpoonup> Login"

definition keyServerPersists :: string where
  "keyServerPersists = ''overleaf-servers''"

definition globalState_get :: "world \<Rightarrow> string \<Rightarrow> ServerPersistMap \<Rightarrow> ServerPersistMap" where
  "globalState_get w key defaultValue =
     (case globalState w key of None \<Rightarrow> defaultValue | Some v \<Rightarrow> v)"

definition globalState_update :: "string \<Rightarrow> ServerPersistMap \<Rightarrow> world \<Rightarrow> world" where
  "globalState_update key v w =
     w\<lparr>globalState := (globalState w)(key \<mapsto> v), updates := updates w @ [(key, v)]\<rparr>"

text \<open>\<open>await api.method(args)\<close>: the call is recorded and the client's result returned.\<close>
definition request :: "BaseAPI \<Rightarrow> call \<Rightarrow> world \<Rightarrow> ResponseSchema \<times> world" where
  "request api c w = (api (calls w) c, w\<lparr>calls := calls w @ [c]\<rparr>)"

definition showErrorMessage :: "string \<Rightarrow> world \<Rightarrow> world" where
  "showErrorMessage m w = w\<lparr>errorMessages := errorMessages w @ [m]\<rparr>"

text \<open>The recurring block
  \<^verbatim>\<open>if (res.message!==undefined) { vscode.window.showErrorMessage(res.message); }\<close>\<close>
definition showMessageOf :: "ResponseSchema \<Rightarrow> world \<Rightarrow> world" where
  "showMessageOf res w =
     (case r_message res of None \<Rightarrow> w | Some m \<Rightarrow> showErrorMessage m w)"

text \<open>What every method reads first:
  \<^verbatim>\<open>context.globalState.get<ServerPersistMap>(keyServerPersists, {})\<close>\<close>
abbreviation persistsOf :: "world \<Rightarrow> ServerPersistMap" where
  "persistsOf w \<equiv> globalState_get w keyServerPersists Map.empty"

subsection \<open>Property lookup\<close>

text \<open>
  The blob is a plain object (the default \<open>{}\<close>, or parsed JSON), so \<open>persists[name]\<close>
  finds an own property first and otherwise a property of \<open>Object.prototype\<close>. These are
  the names \<open>Object.prototype\<close> has from the start: \<open>__proto__\<close> reads as
  \<open>Object.prototype\<close> itself, every other one as a built-in function. None of them is
  \<open>undefined\<close>.
\<close>
definition inheritedNames :: "string list" where
  "inheritedNames =
     [''constructor'', ''__defineGetter__'', ''__defineSetter__'', ''hasOwnProperty'',
      ''__lookupGetter__'', ''__lookupSetter__'', ''isPrototypeOf'', ''propertyIsEnumerable'',
      ''toString'', ''valueOf'', ''__proto__'', ''toLocaleString'']"

text \<open>The property names of \<open>Object.prototype\<close> in a given process: once it carries a
  \<open>login\<close>, that name is inherited too, and reads as the login object.\<close>
definition prototypeNames :: "world \<Rightarrow> string list" where
  "prototypeNames w =
     inheritedNames @ (case objectLogin w ''__proto__'' of None \<Rightarrow> [] | Some login \<Rightarrow> [''login''])"

text \<open>The value of \<open>persists[name]\<close> when it is not \<open>undefined\<close>: a stored entry, or the
  object inherited under that name.\<close>
datatype found = OwnEntry ServerPersist | InheritedObject string

definition persistsAt :: "world \<Rightarrow> ServerPersistMap \<Rightarrow> string \<Rightarrow> found option" where
  "persistsAt w persists name =
     (case persists name of
        Some entry \<Rightarrow> Some (OwnEntry entry)
      | None \<Rightarrow>
          if name \<in> set (prototypeNames w) then Some (InheritedObject name) else None)"

text \<open>
  \<open>server.login\<close>. A property read follows the prototype chain: an entry without a \<open>login\<close>
  of its own inherits from \<open>Object.prototype\<close>, which is the object found under
  \<open>__proto__\<close>; so does an inherited object without one (a built-in function through
  \<open>Function.prototype\<close>, which no name reaches and which therefore never carries a
  \<open>login\<close>).
\<close>
definition loginOf :: "world \<Rightarrow> found \<Rightarrow> Login option" where
  "loginOf w server =
     (case server of
        OwnEntry entry \<Rightarrow>
          (case s_login entry of
             Some login \<Rightarrow> Some login
           | None \<Rightarrow> objectLogin w ''__proto__'')
      | InheritedObject n \<Rightarrow>
          (case objectLogin w n of
             Some login \<Rightarrow> Some login
           | None \<Rightarrow> objectLogin w ''__proto__''))"

text \<open>\<open>server.url\<close>; the built-in objects have no such property.\<close>
definition urlOf :: "found \<Rightarrow> string option" where
  "urlOf server =
     (case server of OwnEntry entry \<Rightarrow> Some (s_url entry) | InheritedObject n \<Rightarrow> None)"

text \<open>\<open>server.login = login\<close>: an assignment makes an own property of the object it is
  applied to. On an entry it changes the blob in hand, on an inherited object the process.\<close>
definition setLogin ::
  "string \<Rightarrow> found \<Rightarrow> Login \<Rightarrow> ServerPersistMap \<Rightarrow> world \<Rightarrow> ServerPersistMap \<times> world" where
  "setLogin name server login persists w =
     (case server of
        OwnEntry entry \<Rightarrow> (persists(name \<mapsto> entry\<lparr>s_login := Some login\<rparr>), w)
      | InheritedObject n \<Rightarrow> (persists, w\<lparr>objectLogin := (objectLogin w)(n \<mapsto> login)\<rparr>))"

text \<open>\<open>delete server.login\<close> removes an own property and leaves an inherited one.\<close>
definition deleteLogin ::
  "string \<Rightarrow> found \<Rightarrow> ServerPersistMap \<Rightarrow> world \<Rightarrow> ServerPersistMap \<times> world" where
  "deleteLogin name server persists w =
     (case server of
        OwnEntry entry \<Rightarrow> (persists(name \<mapsto> entry\<lparr>s_login := None\<rparr>), w)
      | InheritedObject n \<Rightarrow> (persists, w\<lparr>objectLogin := (objectLogin w)(n := None)\<rparr>))"

text \<open>\<open>server.login.projects = projects\<close> changes the login object that \<open>server.login\<close>
  reads, wherever it is kept.\<close>
definition setProjects ::
  "string \<Rightarrow> found \<Rightarrow> ProjectPersist list \<Rightarrow> ServerPersistMap \<Rightarrow> world
     \<Rightarrow> ServerPersistMap \<times> world" where
  "setProjects name server projects persists w =
     (let onPrototype =
        (case objectLogin w ''__proto__'' of
           None \<Rightarrow> w
         | Some login \<Rightarrow>
             w\<lparr>objectLogin := (objectLogin w)(''__proto__'' \<mapsto> login\<lparr>l_projects := Some projects\<rparr>)\<rparr>)
      in
      case server of
        OwnEntry entry \<Rightarrow>
          (case s_login entry of
             Some login \<Rightarrow>
               (persists(name \<mapsto> entry\<lparr>s_login := Some (login\<lparr>l_projects := Some projects\<rparr>)\<rparr>), w)
           | None \<Rightarrow> (persists, onPrototype))
      | InheritedObject n \<Rightarrow>
          (case objectLogin w n of
             Some login \<Rightarrow>
               (persists,
                w\<lparr>objectLogin := (objectLogin w)(n \<mapsto> login\<lparr>l_projects := Some projects\<rparr>)\<rparr>)
           | None \<Rightarrow> (persists, onPrototype)))"

section \<open>Server registry\<close>

definition addServer :: "world \<Rightarrow> string \<Rightarrow> string \<Rightarrow> bool \<times> world" where
  "addServer w name url =
     (let persists = persistsOf w in
      case persistsAt w persists name of
        None \<Rightarrow>
          (True, globalState_update keyServerPersists
                   (persists(name \<mapsto> \<lparr>s_name = name, s_url = url, s_login = None\<rparr>)) w)
      | Some _ \<Rightarrow> (False, w))"

text \<open>\<open>delete persists[name]\<close> removes an own property only; for an inherited name the
  blob is written back as it was.\<close>
definition removeServer :: "world \<Rightarrow> string \<Rightarrow> bool \<times> world" where
  "removeServer w name =
     (let persists = persistsOf w in
      case persistsAt w persists name of
        Some _ \<Rightarrow> (True, globalState_update keyServerPersists (persists(name := None)) w)
      | None \<Rightarrow> (False, w))"

section \<open>Session manager\<close>

text \<open>\<open>auth\<close> is a dictionary of strings. \<open>auth.cookies ? \<dots> : \<dots>\<close> tests truthiness: the
  cookie branch is taken when the key is present and its string is not empty.\<close>
definition loginCall :: "(string \<rightharpoonup> string) \<Rightarrow> call" where
  "loginCall auth =
     (case auth ''cookies'' of
        None \<Rightarrow> PassportLogin (auth ''email'') (auth ''password'')
      | Some c \<Rightarrow>
          if c \<noteq> [] then CookiesLogin c
          else PassportLogin (auth ''email'') (auth ''password''))"

text \<open>Reading \<open>server.login\<close> when \<open>persists[name]\<close> is \<open>undefined\<close> throws a
  \<open>TypeError\<close>; in an \<open>async\<close> method the promise is rejected with it.\<close>
definition loginServer ::
  "world \<Rightarrow> BaseAPI \<Rightarrow> string \<Rightarrow> (string \<rightharpoonup> string) \<Rightarrow> (error + bool) \<times> world" where
  "loginServer w api name auth =
     (let persists = persistsOf w in
      case persistsAt w persists name of
        None \<Rightarrow> (Inl TypeError, w)
      | Some server \<Rightarrow>
          (case loginOf w server of
             None \<Rightarrow>
               (let (res, w1) = request api (loginCall auth) w in
                if r_type res = ''success'' \<and> r_identity res \<noteq> None \<and> r_message res \<noteq> None
                then
                  (let (persists', w2) =
                         setLogin name server
                           \<lparr>l_userId = the (r_message res), l_username = auth ''email'',
                            l_identity = the (r_identity res), l_projects = None\<rparr>
                           persists w1
                   in (Inr True, globalState_update keyServerPersists persists' w2))
                else (Inr False, showMessageOf res w1))
           | Some _ \<Rightarrow> (Inr False, w)))"

definition logoutServer :: "world \<Rightarrow> BaseAPI \<Rightarrow> string \<Rightarrow> (error + bool) \<times> world" where
  "logoutServer w api name =
     (let persists = persistsOf w in
      case persistsAt w persists name of
        None \<Rightarrow> (Inl TypeError, w)
      | Some server \<Rightarrow>
          (case loginOf w server of
             Some login \<Rightarrow>
               (let (res, w1) = request api (Logout (l_identity login)) w;
                    (persists', w2) = deleteLogin name server persists w1
                in (Inr True, globalState_update keyServerPersists persists' w2))
           | None \<Rightarrow> (Inr False, w)))"

text \<open>\<open>authenticate\<close> is not \<open>async\<close>: it returns \<open>Promise.resolve(identity)\<close> or
  \<open>Promise.reject()\<close>, and throws when \<open>persists[name]\<close> is \<open>undefined\<close>.\<close>
definition authenticate :: "world \<Rightarrow> string \<Rightarrow> error + Identity" where
  "authenticate w name =
     (let persists = persistsOf w in
      case persistsAt w persists name of
        None \<Rightarrow> Inl TypeError
      | Some server \<Rightarrow>
          (case loginOf w server of
             Some login \<Rightarrow> Inr (l_identity login)
           | None \<Rightarrow> Inl Rejected))"

section \<open>Project catalog\<close>

text \<open>The \<open>forEach\<close> over \<open>res.projects\<close> assigns \<open>project.userId\<close> in every element;
  the array so changed is cached and returned.\<close>
definition fetchServerProjects ::
  "world \<Rightarrow> BaseAPI \<Rightarrow> string \<Rightarrow> (error + ProjectPersist list) \<times> world" where
  "fetchServerProjects w api name =
     (let persists = persistsOf w in
      case persistsAt w persists name of
        None \<Rightarrow> (Inl TypeError, w)
      | Some server \<Rightarrow>
          (case loginOf w server of
             Some login \<Rightarrow>
               (let (res0, w0) = request api (GetProjectsJson (l_identity login)) w;
                    (res, w1) =
                      (if r_type res0 \<noteq> ''success''
                       then request api (UserProjectsJson (l_identity login)) w0
                       else (res0, w0))
                in
                if r_type res = ''success'' \<and> r_projects res \<noteq> None then
                  (let projects = map (\<lambda>project. project\<lparr>p_userId := l_userId login\<rparr>)
                                      (the (r_projects res));
                       (persists', w2) = setProjects name server projects persists w1
                   in (Inr projects, globalState_update keyServerPersists persists' w2))
                else (Inr [], showMessageOf res w1))
           | None \<Rightarrow> (Inr [], w)))"

section \<open>File and entity operations\<close>

definition getProjectFile ::
  "world \<Rightarrow> BaseAPI \<Rightarrow> string \<Rightarrow> string \<Rightarrow> string \<Rightarrow> (error + Uint8Array) \<times> world" where
  "getProjectFile w api name projectId fileId =
     (let persists = persistsOf w in
      case persistsAt w persists name of
        None \<Rightarrow> (Inl TypeError, w)
      | Some server \<Rightarrow>
          (case loginOf w server of
             Some login \<Rightarrow>
               (let (res, w1) = request api (GetFile (l_identity login) projectId fileId) w in
                if r_type res = ''success'' \<and> r_content res \<noteq> None
                then (Inr (the (r_content res)), w1)
                else (Inr [], w1))
           | None \<Rightarrow> (Inr [], w)))"

text \<open>A method that falls off its end returns \<open>undefined\<close>, here \<open>None\<close>.\<close>
definition uploadProjectFile ::
  "world \<Rightarrow> BaseAPI \<Rightarrow> string \<Rightarrow> string \<Rightarrow> string \<Rightarrow> string \<Rightarrow> Uint8Array
     \<Rightarrow> (error + Entity option) \<times> world" where
  "uploadProjectFile w api name projectId parentFolderId fileName content =
     (let persists = persistsOf w in
      case persistsAt w persists name of
        None \<Rightarrow> (Inl TypeError, w)
      | Some server \<Rightarrow>
          (case loginOf w server of
             Some login \<Rightarrow>
               (let (res, w1) = request api
                      (UploadFile (l_identity login) projectId parentFolderId fileName content) w
                in
                if r_type res = ''success'' \<and> r_entity res \<noteq> None
                then (Inr (r_entity res), w1)
                else (Inr None, showMessageOf res w1))
           | None \<Rightarrow> (Inr None, w)))"

definition addProjectFolder ::
  "world \<Rightarrow> BaseAPI \<Rightarrow> string \<Rightarrow> string \<Rightarrow> string \<Rightarrow> string
     \<Rightarrow> (error + Entity option) \<times> world" where
  "addProjectFolder w api name projectId folderName parentFolderId =
     (let persists = persistsOf w in
      case persistsAt w persists name of
        None \<Rightarrow> (Inl TypeError, w)
      | Some server \<Rightarrow>
          (case loginOf w server of
             Some login \<Rightarrow>
               (let (res, w1) = request api
                      (AddFolder (l_identity login) projectId folderName parentFolderId) w
                in
                if r_type res = ''success'' \<and> r_entity res \<noteq> None
                then (Inr (r_entity res), w1)
                else (Inr None, showMessageOf res w1))
           | None \<Rightarrow> (Inr None, w)))"

definition deleteProjectEntity ::
  "world \<Rightarrow> BaseAPI \<Rightarrow> string \<Rightarrow> string \<Rightarrow> FileType \<Rightarrow> string \<Rightarrow> (error + bool) \<times> world" where
  "deleteProjectEntity w api name projectId fileType fileId =
     (let persists = persistsOf w in
      case persistsAt w persists name of
        None \<Rightarrow> (Inl TypeError, w)
      | Some server \<Rightarrow>
          (case loginOf w server of
             Some login \<Rightarrow>
               (let (res, w1) = request api
                      (DeleteEntity (l_identity login) projectId fileType fileId) w
                in
                if r_type res = ''success'' then (Inr True, w1)
                else (Inr False, showMessageOf res w1))
           | None \<Rightarrow> (Inr False, w)))"

definition renameProjectEntity ::
  "world \<Rightarrow> BaseAPI \<Rightarrow> string \<Rightarrow> string \<Rightarrow> string \<Rightarrow> string \<Rightarrow> string
     \<Rightarrow> (error + bool) \<times> world" where
  "renameProjectEntity w api name projectId entityType entityId newName =
     (let persists = persistsOf w in
      case persistsAt w persists name of
        None \<Rightarrow> (Inl TypeError, w)
      | Some server \<Rightarrow>
          (case loginOf w server of
             Some login \<Rightarrow>
               (let (res, w1) = request api
                      (RenameEntity (l_identity login) projectId entityType entityId newName) w
                in
                if r_type res = ''success'' then (Inr True, w1)
                else (Inr False, showMessageOf res w1))
           | None \<Rightarrow> (Inr False, w)))"

definition moveProjectEntity ::
  "world \<Rightarrow> BaseAPI \<Rightarrow> string \<Rightarrow> string \<Rightarrow> string \<Rightarrow> string \<Rightarrow> string
     \<Rightarrow> (error + bool) \<times> world" where
  "moveProjectEntity w api name projectId entityType entityId newParentId =
     (let persists = persistsOf w in
      case persistsAt w persists name of
        None \<Rightarrow> (Inl TypeError, w)
      | Some server \<Rightarrow>
          (case loginOf w server of
             Some login \<Rightarrow>
               (let (res, w1) = request api
                      (MoveEntity (l_identity login) projectId entityType entityId newParentId) w
                in
                if r_type res = ''success'' then (Inr True, w1)
                else (Inr False, showMessageOf res w1))
           | None \<Rightarrow> (Inr False, w)))"

section \<open>Compile service\<close>

text \<open>The result of \<open>deleteAuxFiles\<close> is awaited and dropped. On success the method
  returns \<open>res.compile\<close>, whatever it holds.\<close>
definition compileProjectEntity ::
  "world \<Rightarrow> BaseAPI \<Rightarrow> string \<Rightarrow> string \<Rightarrow> bool \<Rightarrow> (error + CompileResult option) \<times> world" where
  "compileProjectEntity w api name projectId needCacheClearFirst =
     (let persists = persistsOf w in
      case persistsAt w persists name of
        None \<Rightarrow> (Inl TypeError, w)
      | Some server \<Rightarrow>
          (case loginOf w server of
             Some login \<Rightarrow>
               (let w0 = (if needCacheClearFirst
                          then snd (request api (DeleteAuxFiles (l_identity login) projectId) w)
                          else w);
                    (res, w1) = request api (Compile (l_identity login) projectId) w0
                in
                if r_type res = ''success'' then (Inr (r_compile res), w1)
                else (Inr None, showMessageOf res w1))
           | None \<Rightarrow> (Inr None, w)))"

section \<open>Sync bridge\<close>

text \<open>\<open>await this.authenticate(context, name)\<close> rethrows whatever \<open>authenticate\<close> threw
  or rejected with, before any call of the client.\<close>
definition syncCode ::
  "world \<Rightarrow> BaseAPI \<Rightarrow> string \<Rightarrow> string \<Rightarrow> string \<Rightarrow> number \<Rightarrow> number
     \<Rightarrow> (error + SyncCodeResult option) \<times> world" where
  "syncCode w api name projectId filePath line column =
     (case authenticate w name of
        Inl e \<Rightarrow> (Inl e, w)
      | Inr ident \<Rightarrow>
          (let (res, w1) = request api (ProxySyncCode ident projectId filePath line column) w in
           if r_type res = ''success'' then (Inr (r_syncCode res), w1)
           else (Inr None, showMessageOf res w1)))"

definition syncPdf ::
  "world \<Rightarrow> BaseAPI \<Rightarrow> string \<Rightarrow> string \<Rightarrow> number \<Rightarrow> number \<Rightarrow> number
     \<Rightarrow> (error + SyncPdfResult option) \<times> world" where
  "syncPdf w api name projectId page h v =
     (case authenticate w name of
        Inl e \<Rightarrow> (Inl e, w)
      | Inr ident \<Rightarrow>
          (let (res, w1) = request api (ProxySyncPdf ident projectId page h v) w in
           if r_type res = ''success'' then (Inr (r_syncPdf res), w1)
           else (Inr None, showMessageOf res w1)))"

section \<open>Socket session factory\<close>

text \<open>\<open>new BaseAPI(server.url)\<close> and \<open>new SocketIOAPI(server.url, api, identity)\<close>: the
  handles are known by their constructor arguments only.\<close>
datatype BaseAPIHandle = NewBaseAPI "string option"
datatype SocketIOAPI = NewSocketIOAPI "string option" BaseAPIHandle Identity

definition initSocketIOAPI :: "world \<Rightarrow> string \<Rightarrow> error + (BaseAPIHandle \<times> SocketIOAPI) option" where
  "initSocketIOAPI w name =
     (let persists = persistsOf w in
      case persistsAt w persists name of
        None \<Rightarrow> Inl TypeError
      | Some server \<Rightarrow>
          (case loginOf w server of
             Some login \<Rightarrow>
               (let api = NewBaseAPI (urlOf server);
                    socket = NewSocketIOAPI (urlOf server) api (l_identity login)
                in Inr (Some (api, socket)))
           | None \<Rightarrow> Inr None))"

section \<open>Sample worlds and clients\<close>

definition response :: "string \<Rightarrow> string option \<Rightarrow> ResponseSchema" where
  "response t m =
     \<lparr>r_type = t, r_message = m, r_identity = None, r_projects = None, r_content = None,
      r_entity = None, r_compile = None, r_syncCode = None, r_syncPdf = None\<rparr>"

definition lab :: ServerPersist where
  "lab = \<lparr>s_name = ''lab'', s_url = ''https://lab.example'', s_login = None\<rparr>"

definition project :: "string \<Rightarrow> string \<Rightarrow> string \<Rightarrow> ProjectPersist" where
  "project i u n =
     \<lparr>p_id = i, p_userId = u, p_name = n, p_lastUpdated = None, p_lastUpdatedBy = None,
      p_source = None, p_accessLevel = owner, p_archived = None, p_trashed = None\<rparr>"

definition session_u1 :: Login where
  "session_u1 = \<lparr>l_userId = ''u1'', l_username = Some ''ada@lab.example'',
                 l_identity = Identity ''jar'',
                 l_projects = Some [project ''p0'' ''u1'' ''notes'']\<rparr>"

definition lab_in :: ServerPersist where
  "lab_in = lab\<lparr>s_login := Some session_u1\<rparr>"

definition world_of :: "ServerPersistMap \<Rightarrow> world" where
  "world_of persists =
     \<lparr>globalState = [keyServerPersists \<mapsto> persists], updates = [], calls = [],
      errorMessages = [], objectLogin = Map.empty\<rparr>"

definition world_out :: world where
  "world_out = world_of [''lab'' \<mapsto> lab]"

definition world_in :: world where
  "world_in = world_of [''lab'' \<mapsto> lab_in]"

definition auth_ada :: "string \<rightharpoonup> string" where
  "auth_ada = [''email'' \<mapsto> ''ada@lab.example'', ''password'' \<mapsto> ''s3cret'']"

text \<open>A client whose every call fails with a message.\<close>
definition api_error :: BaseAPI where
  "api_error history c = response ''error'' (Some ''boom'')"

text \<open>A client whose every call answers \<open>{type: 'success'}\<close> and nothing else.\<close>
definition api_bare_success :: BaseAPI where
  "api_bare_success history c = response ''success'' None"

text \<open>A client of a server whose primary project listing is down.\<close>
definition api_lab :: BaseAPI where
  "api_lab history c =
     (case c of
        PassportLogin e p \<Rightarrow>
          (response ''success'' (Some ''u1''))\<lparr>r_identity := Some (Identity ''jar'')\<rparr>
      | CookiesLogin k \<Rightarrow>
          (response ''success'' (Some ''u1''))\<lparr>r_identity := Some (Identity ''jar'')\<rparr>
      | GetProjectsJson i \<Rightarrow> response ''error'' (Some ''primary listing down'')
      | UserProjectsJson i \<Rightarrow>
          (response ''success'' None)\<lparr>r_projects :=
             Some [project ''p1'' ''?'' ''paper'', project ''p2'' ''?'' ''thesis'']\<rparr>
      | GetFile i p f \<Rightarrow> (response ''success'' None)\<lparr>r_content := Some [104, 105]\<rparr>
      | _ \<Rightarrow> response ''success'' None)"

text \<open>A client of a server where both project listings are down.\<close>
definition api_down :: BaseAPI where
  "api_down history c =
     (case c of
        GetProjectsJson i \<Rightarrow> response ''error'' (Some ''primary listing down'')
      | UserProjectsJson i \<Rightarrow> response ''error'' (Some ''fallback listing down'')
      | _ \<Rightarrow> response ''success'' None)"


text \<open>A process in which nothing has been stored yet.\<close>
definition world_fresh :: world where
  "world_fresh =
     \<lparr>globalState = Map.empty, updates = [], calls = [], errorMessages = [],
      objectLogin = Map.empty\<rparr>"

text \<open>The process after a login under the name \<open>__proto__\<close> has succeeded: the registry still
  holds the one entry \<open>lab\<close> without a session, and \<open>Object.prototype\<close> carries a login.\<close>
definition world_polluted :: world where
  "world_polluted = snd (loginServer world_out api_lab ''__proto__'' auth_ada)"

definition session_proto :: Login where
  "session_proto = \<lparr>l_userId = ''u1'', l_username = Some ''ada@lab.example'',
                    l_identity = Identity ''jar'', l_projects = None\<rparr>"

section \<open>Helper facts\<close>

lemma persistsAt_own:
  "persists name = Some entry \<Longrightarrow> persistsAt w persists name = Some (OwnEntry entry)"
  by (simp add: persistsAt_def)

lemma persistsAt_inherited:
  "persists name = None \<Longrightarrow> name \<in> set (prototypeNames w)
     \<Longrightarrow> persistsAt w persists name = Some (InheritedObject name)"
  by (simp add: persistsAt_def)

lemma persistsAt_undefined:
  "persists name = None \<Longrightarrow> name \<notin> set (prototypeNames w)
     \<Longrightarrow> persistsAt w persists name = None"
  by (simp add: persistsAt_def)

lemma prototypeNames_plain:
  "objectLogin w ''__proto__'' = None \<Longrightarrow> prototypeNames w = inheritedNames"
  by (simp add: prototypeNames_def)

lemma loginOf_own: "s_login entry = Some login \<Longrightarrow> loginOf w (OwnEntry entry) = Some login"
  by (simp add: loginOf_def)


lemma loginOf_calls [simp]: "loginOf (w\<lparr>calls := cs\<rparr>) server = loginOf w server"
  by (simp add: loginOf_def split: found.split option.split)

lemma sample_worlds [simp]:
  "persistsOf world_out = [''lab'' \<mapsto> lab]"
  "persistsOf world_in = [''lab'' \<mapsto> lab_in]"
  "persistsOf world_fresh = Map.empty"
  "calls world_out = []" "calls world_in = []" "calls world_fresh = []"
  "updates world_out = []" "updates world_in = []" "updates world_fresh = []"
  "errorMessages world_out = []" "errorMessages world_in = []" "errorMessages world_fresh = []"
  "objectLogin world_out = Map.empty" "objectLogin world_in = Map.empty"
  "objectLogin world_fresh = Map.empty"
  by (simp_all add: world_out_def world_in_def world_fresh_def world_of_def globalState_get_def)

lemma persistsOf_update [simp]:
  "persistsOf (globalState_update keyServerPersists m w) = m"
  by (simp add: globalState_update_def globalState_get_def)

lemma persistsOf_calls [simp]: "persistsOf (w\<lparr>calls := cs\<rparr>) = persistsOf w"
  by (simp add: globalState_get_def)

lemma persistsOf_errorMessages [simp]: "persistsOf (w\<lparr>errorMessages := ms\<rparr>) = persistsOf w"
  by (simp add: globalState_get_def)

lemma persistsOf_objectLogin [simp]: "persistsOf (w\<lparr>objectLogin := ol\<rparr>) = persistsOf w"
  by (simp add: globalState_get_def)

lemma showMessageOf_fields [simp]:
  "globalState (showMessageOf res w) = globalState w"
  "updates (showMessageOf res w) = updates w"
  "calls (showMessageOf res w) = calls w"
  "objectLogin (showMessageOf res w) = objectLogin w"
  "errorMessages (showMessageOf res w) =
     errorMessages w @ (case r_message res of None \<Rightarrow> [] | Some m \<Rightarrow> [m])"
  by (simp_all add: showMessageOf_def showErrorMessage_def split: option.split)

lemma globalState_update_fields [simp]:
  "updates (globalState_update k m w) = updates w @ [(k, m)]"
  "calls (globalState_update k m w) = calls w"
  "errorMessages (globalState_update k m w) = errorMessages w"
  "objectLogin (globalState_update k m w) = objectLogin w"
  by (simp_all add: globalState_update_def)

lemma request_fields [simp]:
  "fst (request api c w) = api (calls w) c"
  "snd (request api c w) = w\<lparr>calls := calls w @ [c]\<rparr>"
  by (simp_all add: request_def)

lemma persistsOf_showMessageOf [simp]: "persistsOf (showMessageOf res w) = persistsOf w"
  by (simp add: globalState_get_def)

lemma sample_entries [simp]:
  "s_login lab = None" "s_login lab_in = Some session_u1"
  "l_identity session_u1 = Identity ''jar''" "l_userId session_u1 = ''u1''"
  "lab_in\<lparr>s_login := None\<rparr> = lab"
  "l_identity session_proto = Identity ''jar''" "l_userId session_proto = ''u1''"
  by (simp_all add: lab_def lab_in_def session_u1_def session_proto_def)

lemma inherited_samples [simp]:
  "''constructor'' \<in> set inheritedNames" "''__proto__'' \<in> set inheritedNames"
  "''lab'' \<notin> set inheritedNames" "''ghost'' \<notin> set inheritedNames"
  "''home'' \<notin> set inheritedNames"
  "prototypeNames world_out = inheritedNames" "prototypeNames world_in = inheritedNames"
  "prototypeNames world_fresh = inheritedNames"
  by (simp_all add: inheritedNames_def prototypeNames_def)

text \<open>How the process with a login on \<open>Object.prototype\<close> comes about and what it holds.\<close>
lemma world_polluted_fields [simp]:
  "persistsOf world_polluted = [''lab'' \<mapsto> lab]"
  "objectLogin world_polluted = [''__proto__'' \<mapsto> session_proto]"
  "calls world_polluted = [PassportLogin (Some ''ada@lab.example'') (Some ''s3cret'')]"
  "updates world_polluted = [(keyServerPersists, [''lab'' \<mapsto> lab])]"
  "errorMessages world_polluted = []"
  by (simp_all add: world_polluted_def loginServer_def persistsAt_def prototypeNames_def
        loginOf_def setLogin_def split_def loginCall_def auth_ada_def api_lab_def response_def
        session_proto_def)


section \<open>Server registry: adding a server\<close>

text \<open>
  For a name that is neither stored nor inherited, \<open>addServer\<close> returns true, stores a new
  entry \<open>{name, url}\<close> without a session under that name (every other entry as it was)
  and writes the registry back, with no call and no message. For a name that is stored it
  returns false and changes nothing. For a name that is not stored but inherited it
  returns false and changes nothing either.
\<close>
lemma addServer_result:
  "(persistsOf w name = None \<and> name \<notin> set (prototypeNames w) \<longrightarrow>
      fst (addServer w name url) = True
      \<and> persistsOf (snd (addServer w name url)) =
          (persistsOf w)(name \<mapsto> \<lparr>s_name = name, s_url = url, s_login = None\<rparr>)
      \<and> updates (snd (addServer w name url)) =
          updates w @ [(keyServerPersists,
             (persistsOf w)(name \<mapsto> \<lparr>s_name = name, s_url = url, s_login = None\<rparr>))]
      \<and> calls (snd (addServer w name url)) = calls w
      \<and> errorMessages (snd (addServer w name url)) = errorMessages w)
   \<and> (persistsOf w name \<noteq> None \<longrightarrow> addServer w name url = (False, w))
   \<and> (persistsOf w name = None \<and> name \<in> set (prototypeNames w) \<longrightarrow>
        addServer w name url = (False, w))"
  by (auto simp add: addServer_def persistsAt_def prototypeNames_def)

text \<open>
  Claim C8 asks that a name that is not yet registered is always added. The source tests
  \<open>persists[name]===undefined\<close>, which is false for a name the blob inherits: on a store
  that holds nothing, \<open>addServer(context, 'constructor', url)\<close> returns false, issues no
  \<open>update\<close>, and the name is still not registered afterwards.
\<close>
theorem C8_addServer_inherited_name:
  "persistsOf world_fresh ''constructor'' = None
   \<and> addServer world_fresh ''constructor'' ''https://c.example'' = (False, world_fresh)
   \<and> updates (snd (addServer world_fresh ''constructor'' ''https://c.example'')) = []
   \<and> persistsOf (snd (addServer world_fresh ''constructor'' ''https://c.example''))
         ''constructor'' = None"
  by (simp add: addServer_def persistsAt_def prototypeNames_def)

section \<open>Session manager: login\<close>




text \<open>
  Claim C6. For a registered entry that has a session, \<open>loginServer\<close> returns false and
  leaves the world as it was: no call of the client, no write, no message, the session with
  its identity and cached projects untouched.
\<close>
theorem C6_login_when_logged_in:
  assumes "persistsOf w name = Some server" and "s_login server = Some login"
  shows "loginServer w api name auth = (Inr False, w)"
  using assms by (simp add: loginServer_def persistsAt_own loginOf_own)

theorem C6_login_when_logged_in_witness:
  "persistsOf world_in ''lab'' = Some lab_in
   \<and> s_login lab_in = Some session_u1
   \<and> loginServer world_in api_lab ''lab'' auth_ada = (Inr False, world_in)"
  using C6_login_when_logged_in [of world_in "''lab''" lab_in session_u1 api_lab auth_ada]
  by simp

section \<open>Session manager: logout\<close>




section \<open>Project catalog\<close>

text \<open>
  Claim C2. For a registered entry with a session, \<open>fetchServerProjects\<close> calls
  \<open>getProjectsJson\<close> first and calls \<open>userProjectsJson\<close> after it exactly when the first
  result is not of type \<open>success\<close>. When the result it ends with (the first if it succeeded,
  else the second) has type \<open>success\<close> and a project list, the method returns that list with
  every \<open>userId\<close> set to the session's, the session's cached projects become that same
  list, the registry is written back, and no message is shown.
\<close>
theorem C2_fetchServerProjects:
  assumes "persistsOf w name = Some server" and "s_login server = Some login"
    and "api (calls w) (GetProjectsJson (l_identity login)) = res0"
    and "api (calls w @ [GetProjectsJson (l_identity login)])
             (UserProjectsJson (l_identity login)) = res1"
    and "res = (if r_type res0 = ''success'' then res0 else res1)"
  shows "calls (snd (fetchServerProjects w api name)) =
           (if r_type res0 = ''success'' then calls w @ [GetProjectsJson (l_identity login)]
            else calls w @ [GetProjectsJson (l_identity login),
                            UserProjectsJson (l_identity login)])
    \<and> (\<forall>projects stamped.
          r_type res = ''success'' \<and> r_projects res = Some projects
          \<and> stamped = map (\<lambda>project. project\<lparr>p_userId := l_userId login\<rparr>) projects \<longrightarrow>
          fst (fetchServerProjects w api name) = Inr stamped
          \<and> length stamped = length projects
          \<and> list_all (\<lambda>project. p_userId project = l_userId login) stamped
          \<and> persistsOf (snd (fetchServerProjects w api name)) =
               (persistsOf w)(name \<mapsto>
                  server\<lparr>s_login := Some (login\<lparr>l_projects := Some stamped\<rparr>)\<rparr>)
          \<and> updates (snd (fetchServerProjects w api name)) =
               updates w @ [(keyServerPersists, persistsOf (snd (fetchServerProjects w api name)))]
          \<and> errorMessages (snd (fetchServerProjects w api name)) = errorMessages w)"
  using assms
  by (cases "r_type res0 = ''success''")
     (simp_all add: fetchServerProjects_def persistsAt_own loginOf_own setProjects_def Let_def
        split_def list_all_iff)

theorem C2_fetchServerProjects_witness:
  "persistsOf world_in ''lab'' = Some lab_in \<and> s_login lab_in = Some session_u1
   \<and> api_lab (calls world_in) (GetProjectsJson (Identity ''jar'')) =
       response ''error'' (Some ''primary listing down'')
   \<and> calls (snd (fetchServerProjects world_in api_lab ''lab'')) =
       [GetProjectsJson (Identity ''jar''), UserProjectsJson (Identity ''jar'')]
   \<and> fst (fetchServerProjects world_in api_lab ''lab'') =
       Inr [project ''p1'' ''u1'' ''paper'', project ''p2'' ''u1'' ''thesis'']
   \<and> persistsOf (snd (fetchServerProjects world_in api_lab ''lab'')) ''lab'' =
       Some (lab_in\<lparr>s_login := Some (session_u1\<lparr>l_projects :=
         Some [project ''p1'' ''u1'' ''paper'', project ''p2'' ''u1'' ''thesis'']\<rparr>)\<rparr>)"
proof -
  let ?ok = "(response ''success'' None)\<lparr>r_projects :=
             Some [project ''p1'' ''?'' ''paper'', project ''p2'' ''?'' ''thesis'']\<rparr>"
  have a: "persistsOf world_in ''lab'' = Some lab_in" and b: "s_login lab_in = Some session_u1"
    by simp_all
  have c: "api_lab (calls world_in) (GetProjectsJson (l_identity session_u1)) =
       response ''error'' (Some ''primary listing down'')"
    by (simp add: api_lab_def)
  have d: "api_lab (calls world_in @ [GetProjectsJson (l_identity session_u1)])
       (UserProjectsJson (l_identity session_u1)) = ?ok"
    by (simp add: api_lab_def)
  have e: "?ok = (if r_type (response ''error'' (Some ''primary listing down'')) = ''success''
                  then response ''error'' (Some ''primary listing down'') else ?ok)"
    by (simp add: response_def)
  have f: "r_type (response ''error'' (Some ''primary listing down'')) \<noteq> ''success''"
    "r_type ?ok = ''success''"
    "r_projects ?ok = Some [project ''p1'' ''?'' ''paper'', project ''p2'' ''?'' ''thesis'']"
    by (simp_all add: response_def)
  have g: "map (\<lambda>p. p\<lparr>p_userId := ''u1''\<rparr>)
             [project ''p1'' ''?'' ''paper'', project ''p2'' ''?'' ''thesis'']
           = [project ''p1'' ''u1'' ''paper'', project ''p2'' ''u1'' ''thesis'']"
    by (simp add: project_def)
  show ?thesis
    using a b c d e f g
      C2_fetchServerProjects [of world_in "''lab''" lab_in session_u1 api_lab
        "response ''error'' (Some ''primary listing down'')" "?ok" "?ok"]
    by simp
qed

text \<open>
  Claim C3. For a registered entry with a session, when the primary listing is not a success
  and the fallback is not a success either (or is a success without a project list),
  \<open>fetchServerProjects\<close> returns the empty list, shows the fallback's message if it has one
  and nothing else, and leaves the store as it was: the entry with its cached projects is
  unchanged and no write is issued.
\<close>
theorem C3_fetchServerProjects_both_fail:
  assumes "persistsOf w name = Some server" and "s_login server = Some login"
    and "api (calls w) (GetProjectsJson (l_identity login)) = res0"
    and "api (calls w @ [GetProjectsJson (l_identity login)])
             (UserProjectsJson (l_identity login)) = res1"
    and "r_type res0 \<noteq> ''success''"
    and "r_type res1 \<noteq> ''success'' \<or> r_projects res1 = None"
  shows "fst (fetchServerProjects w api name) = Inr []
    \<and> calls (snd (fetchServerProjects w api name)) =
         calls w @ [GetProjectsJson (l_identity login), UserProjectsJson (l_identity login)]
    \<and> errorMessages (snd (fetchServerProjects w api name)) =
         errorMessages w @ (case r_message res1 of None \<Rightarrow> [] | Some m \<Rightarrow> [m])
    \<and> globalState (snd (fetchServerProjects w api name)) = globalState w
    \<and> persistsOf (snd (fetchServerProjects w api name)) name = Some server
    \<and> updates (snd (fetchServerProjects w api name)) = updates w"
  using assms
  by (auto simp add: fetchServerProjects_def persistsAt_own loginOf_own Let_def split_def)

theorem C3_fetchServerProjects_both_fail_witness:
  "persistsOf world_in ''lab'' = Some lab_in \<and> s_login lab_in = Some session_u1
   \<and> l_projects session_u1 = Some [project ''p0'' ''u1'' ''notes'']
   \<and> api_down [] (GetProjectsJson (Identity ''jar'')) =
       response ''error'' (Some ''primary listing down'')
   \<and> api_down [GetProjectsJson (Identity ''jar'')] (UserProjectsJson (Identity ''jar''))
       = response ''error'' (Some ''fallback listing down'')
   \<and> fst (fetchServerProjects world_in api_down ''lab'') = Inr []
   \<and> calls (snd (fetchServerProjects world_in api_down ''lab'')) =
       [GetProjectsJson (Identity ''jar''), UserProjectsJson (Identity ''jar'')]
   \<and> errorMessages (snd (fetchServerProjects world_in api_down ''lab'')) =
       [''fallback listing down'']
   \<and> persistsOf (snd (fetchServerProjects world_in api_down ''lab'')) ''lab'' = Some lab_in
   \<and> updates (snd (fetchServerProjects world_in api_down ''lab'')) = []"
proof -
  have c: "api_down (calls world_in) (GetProjectsJson (l_identity session_u1)) =
       response ''error'' (Some ''primary listing down'')"
    and d: "api_down (calls world_in @ [GetProjectsJson (l_identity session_u1)])
       (UserProjectsJson (l_identity session_u1)) =
       response ''error'' (Some ''fallback listing down'')"
    by (simp_all add: api_down_def)
  have e: "r_type (response ''error'' (Some ''primary listing down'')) \<noteq> ''success''"
    "r_type (response ''error'' (Some ''fallback listing down'')) \<noteq> ''success''"
    by (simp_all add: response_def)
  have f: "r_message (response ''error'' (Some ''fallback listing down'')) =
       Some ''fallback listing down''"
    "l_projects session_u1 = Some [project ''p0'' ''u1'' ''notes'']"
    by (simp_all add: response_def session_u1_def)
  show ?thesis
    using c d e f
      C3_fetchServerProjects_both_fail [of world_in "''lab''" lab_in session_u1 api_down
        "response ''error'' (Some ''primary listing down'')"
        "response ''error'' (Some ''fallback listing down'')"]
    by simp
qed

section \<open>Reading a project file\<close>




section \<open>Entity operations without a session\<close>




section \<open>Compile service\<close>

text \<open>
  Claim C7. For a registered entry with a session and any client, \<open>compileProjectEntity\<close>
  with \<open>needCacheClearFirst\<close> set calls \<open>deleteAuxFiles\<close> and then \<open>compile\<close>, in that
  order and nothing else; what it returns is decided by the result of \<open>compile\<close> alone. With
  the flag unset it calls \<open>compile\<close> only.
\<close>
theorem C7_compile_order:
  assumes "persistsOf w name = Some server" and "s_login server = Some login"
  shows "calls (snd (compileProjectEntity w api name projectId True)) =
           calls w @ [DeleteAuxFiles (l_identity login) projectId,
                      Compile (l_identity login) projectId]
    \<and> fst (compileProjectEntity w api name projectId True) =
         (let res = api (calls w @ [DeleteAuxFiles (l_identity login) projectId])
                        (Compile (l_identity login) projectId)
          in if r_type res = ''success'' then Inr (r_compile res) else Inr None)
    \<and> calls (snd (compileProjectEntity w api name projectId False)) =
           calls w @ [Compile (l_identity login) projectId]
    \<and> fst (compileProjectEntity w api name projectId False) =
         (let res = api (calls w) (Compile (l_identity login) projectId)
          in if r_type res = ''success'' then Inr (r_compile res) else Inr None)"
  using assms
  by (simp add: compileProjectEntity_def persistsAt_own loginOf_own Let_def split_def)

theorem C7_compile_order_witness:
  "persistsOf world_in ''lab'' = Some lab_in \<and> s_login lab_in = Some session_u1
   \<and> r_type (api_error [] (DeleteAuxFiles (Identity ''jar'') ''p1'')) \<noteq> ''success''
   \<and> calls (snd (compileProjectEntity world_in api_error ''lab'' ''p1'' True)) =
       [DeleteAuxFiles (Identity ''jar'') ''p1'', Compile (Identity ''jar'') ''p1'']
   \<and> r_type (api_bare_success [] (DeleteAuxFiles (Identity ''jar'') ''p1'')) = ''success''
   \<and> calls (snd (compileProjectEntity world_in api_bare_success ''lab'' ''p1'' True)) =
       [DeleteAuxFiles (Identity ''jar'') ''p1'', Compile (Identity ''jar'') ''p1'']
   \<and> calls (snd (compileProjectEntity world_in api_error ''lab'' ''p1'' False)) =
       [Compile (Identity ''jar'') ''p1'']"
proof -
  have c: "r_type (api_error [] (DeleteAuxFiles (Identity ''jar'') ''p1'')) \<noteq> ''success''"
    "r_type (api_bare_success [] (DeleteAuxFiles (Identity ''jar'') ''p1'')) = ''success''"
    by (simp_all add: api_error_def api_bare_success_def response_def)
  show ?thesis
    using c C7_compile_order [of world_in "''lab''" lab_in session_u1 api_error "''p1''"]
      C7_compile_order [of world_in "''lab''" lab_in session_u1 api_bare_success "''p1''"]
    by simp
qed

section \<open>Names that are not registered\<close>

text \<open>
  Every method below reads \<open>server.login\<close> of \<open>persists[name]\<close> without a check
  (\<open>syncCode\<close> and \<open>syncPdf\<close> through \<open>authenticate\<close>).
\<close>
lemma sync_unregistered_name_throws:
  assumes "persistsOf w name = None" and "name \<notin> set (prototypeNames w)"
  shows "syncCode w api name projectId filePath line column = (Inl TypeError, w)
    \<and> syncPdf w api name projectId page h v = (Inl TypeError, w)"
  using assms by (simp add: syncCode_def syncPdf_def authenticate_def persistsAt_undefined)

text \<open>
  Claim C9, as the source has it. For a name that is not in the registry and that the blob
  does not inherit either, login, logout, catalog fetch, authenticate, file read, upload,
  add-folder, delete, rename, move, compile and the socket factory all throw a
  \<open>TypeError\<close> instead of returning their failure value, before any call of the client and
  with the world unchanged.
\<close>
theorem C9_unregistered_name_throws:
  assumes "persistsOf w name = None" and "name \<notin> set (prototypeNames w)"
  shows "loginServer w api name auth = (Inl TypeError, w)
    \<and> logoutServer w api name = (Inl TypeError, w)
    \<and> fetchServerProjects w api name = (Inl TypeError, w)
    \<and> authenticate w name = Inl TypeError
    \<and> getProjectFile w api name projectId fileId = (Inl TypeError, w)
    \<and> uploadProjectFile w api name projectId parentFolderId fileName content = (Inl TypeError, w)
    \<and> addProjectFolder w api name projectId folderName parentFolderId = (Inl TypeError, w)
    \<and> deleteProjectEntity w api name projectId fileType fileId = (Inl TypeError, w)
    \<and> renameProjectEntity w api name projectId entityType entityId newName = (Inl TypeError, w)
    \<and> moveProjectEntity w api name projectId entityType entityId newParentId = (Inl TypeError, w)
    \<and> compileProjectEntity w api name projectId needCacheClearFirst = (Inl TypeError, w)
    \<and> initSocketIOAPI w name = Inl TypeError"
  using assms
  by (simp add: loginServer_def logoutServer_def fetchServerProjects_def authenticate_def
        getProjectFile_def uploadProjectFile_def addProjectFolder_def deleteProjectEntity_def
        renameProjectEntity_def moveProjectEntity_def compileProjectEntity_def
        initSocketIOAPI_def persistsAt_undefined)

theorem C9_unregistered_name_throws_witness:
  "persistsOf world_in ''ghost'' = None \<and> ''ghost'' \<notin> set (prototypeNames world_in)
   \<and> loginServer world_in api_lab ''ghost'' auth_ada = (Inl TypeError, world_in)
   \<and> logoutServer world_in api_lab ''ghost'' = (Inl TypeError, world_in)
   \<and> fetchServerProjects world_in api_lab ''ghost'' = (Inl TypeError, world_in)
   \<and> authenticate world_in ''ghost'' = Inl TypeError
   \<and> getProjectFile world_in api_lab ''ghost'' ''p1'' ''f1'' = (Inl TypeError, world_in)
   \<and> uploadProjectFile world_in api_lab ''ghost'' ''p1'' ''root'' ''main.tex'' [104, 105]
       = (Inl TypeError, world_in)
   \<and> addProjectFolder world_in api_lab ''ghost'' ''p1'' ''figures'' ''root''
       = (Inl TypeError, world_in)
   \<and> deleteProjectEntity world_in api_lab ''ghost'' ''p1'' ''doc'' ''f1''
       = (Inl TypeError, world_in)
   \<and> renameProjectEntity world_in api_lab ''ghost'' ''p1'' ''doc'' ''d1'' ''intro.tex''
       = (Inl TypeError, world_in)
   \<and> moveProjectEntity world_in api_lab ''ghost'' ''p1'' ''doc'' ''d1'' ''f1''
       = (Inl TypeError, world_in)
   \<and> compileProjectEntity world_in api_lab ''ghost'' ''p1'' True = (Inl TypeError, world_in)
   \<and> initSocketIOAPI world_in ''ghost'' = Inl TypeError"
proof -
  have a: "persistsOf world_in ''ghost'' = None"
    and b: "''ghost'' \<notin> set (prototypeNames world_in)"
    by simp_all
  show ?thesis
    using a b C9_unregistered_name_throws [OF a b, of api_lab auth_ada "''p1''" "''f1''" "''root''"
        "''main.tex''" "[104, 105]" "''figures''" "''doc''" "''doc''" "''d1''"
        "''intro.tex''" "''f1''" True]
    by simp
qed

text \<open>
  The claim C9 as it is worded fails for a name that is absent from the registry but
  inherited, such as \<open>constructor\<close>: \<open>persists[name]\<close> is then a built-in function, whose
  \<open>login\<close> is \<open>undefined\<close>, and nothing throws. Authenticate rejects as for a logged-out
  entry, logout and delete return false, the file read returns the empty array, the socket
  factory returns \<open>undefined\<close>, and login calls the client and returns true.
\<close>
theorem C9_inherited_name_counterexample:
  "persistsOf world_in ''constructor'' = None
   \<and> authenticate world_in ''constructor'' = Inl Rejected
   \<and> logoutServer world_in api_lab ''constructor'' = (Inr False, world_in)
   \<and> deleteProjectEntity world_in api_lab ''constructor'' ''p1'' ''doc'' ''d1''
       = (Inr False, world_in)
   \<and> getProjectFile world_in api_lab ''constructor'' ''p1'' ''f1'' = (Inr [], world_in)
   \<and> initSocketIOAPI world_in ''constructor'' = Inr None
   \<and> fst (loginServer world_in api_lab ''constructor'' auth_ada) = Inr True
   \<and> calls (snd (loginServer world_in api_lab ''constructor'' auth_ada)) =
       [PassportLogin (Some ''ada@lab.example'') (Some ''s3cret'')]"
  by (simp add: authenticate_def logoutServer_def deleteProjectEntity_def getProjectFile_def
        initSocketIOAPI_def loginServer_def persistsAt_def prototypeNames_def loginOf_def setLogin_def split_def
        loginCall_def auth_ada_def api_lab_def response_def)

end
